theory Spec2Isabelle
  imports Main "HOL-Library.Sublist"
begin

section \<open>Characters and strings\<close>

text \<open>
  A Python \<open>str\<close> is a sequence of code points. The model is \<open>string\<close> (a list of
  \<open>char\<close>), one \<open>char\<close> per code point, so it covers the code points 0 to 255
  (Latin-1). The character classes below are those of Python's \<open>re\<close> module for
  \<open>str\<close> patterns (\<open>\s\<close>, \<open>\d\<close>, \<open>\w\<close>) and of \<open>str.strip\<close>, \<open>str.lower\<close>
  on that range.
\<close>

definition code :: "char \<Rightarrow> nat" where
  "code c = of_char c"

definition between :: "nat \<Rightarrow> nat \<Rightarrow> nat \<Rightarrow> bool" where
  "between lo hi n = (lo \<le> n \<and> n \<le> hi)"

definition is_space :: "char \<Rightarrow> bool" where
  "is_space c =
     (between 9 13 (code c) \<or> between 28 32 (code c) \<or> code c = 133 \<or> code c = 160)"

definition is_digit :: "char \<Rightarrow> bool" where
  "is_digit c = between 48 57 (code c)"

definition is_word :: "char \<Rightarrow> bool" where
  "is_word c =
     (between 48 57 (code c) \<or> between 65 90 (code c) \<or> code c = 95 \<or>
      between 97 122 (code c) \<or> code c = 170 \<or> between 178 179 (code c) \<or>
      code c = 181 \<or> between 185 186 (code c) \<or> between 188 190 (code c) \<or>
      between 192 214 (code c) \<or> between 216 246 (code c) \<or> between 248 255 (code c))"

definition lower_char :: "char \<Rightarrow> char" where
  "lower_char c =
     (if between 65 90 (code c) \<or> between 192 214 (code c) \<or> between 216 222 (code c)
      then char_of (code c + 32) else c)"

definition lower :: "string \<Rightarrow> string" where
  "lower s = map lower_char s"

text \<open>\<open>str.upper\<close>, used by the source only on a normalised language code (ASCII letters).\<close>

definition upper_char :: "char \<Rightarrow> char" where
  "upper_char c = (if between 97 122 (code c) then char_of (code c - 32) else c)"

definition upper :: "string \<Rightarrow> string" where
  "upper s = map upper_char s"

definition strip :: "string \<Rightarrow> string" where
  "strip s = rev (dropWhile is_space (rev (dropWhile is_space s)))"

text \<open>Python's truth value of \<open>s.strip()\<close> negated: the string is empty or all whitespace.\<close>

definition blank :: "string \<Rightarrow> bool" where
  "blank s = (strip s = [])"

text \<open>\<open>str(i)\<close> for a non-negative integer, as used in the f-string of a marker.\<close>

fun str_of_nat :: "nat \<Rightarrow> string" where
  "str_of_nat n =
     (if n < 10 then [char_of (48 + n)]
      else str_of_nat (n div 10) @ [char_of (48 + n mod 10)])"

declare str_of_nat.simps [simp del]

text \<open>\<open>needle in haystack\<close> for strings.\<close>

fun contains :: "string \<Rightarrow> string \<Rightarrow> bool" where
  "contains [] pat = (pat = [])"
| "contains (x # xs) pat = (prefix pat (x # xs) \<or> contains xs pat)"

section \<open>Regular expressions as the \<open>re\<close> module matches them\<close>

text \<open>
  The patterns of the source use single characters and character classes, sequence,
  alternation, greedy and lazy repetition of a class, capture groups and \<open>\b\<close>.
  \<open>rmatch r prev s caps\<close> lists every way \<open>r\<close> matches at the start of \<open>s\<close>, in the
  order in which the backtracking matcher tries them, as (matched text, remaining text,
  captures); \<open>prev\<close> is the character before the position, which \<open>\b\<close> looks at.
\<close>

type_synonym caps = "(nat \<times> string) list"

datatype rx =
    Cls "char \<Rightarrow> bool"
  | Eps
  | WordB
  | Seq rx rx
  | Alt rx rx
  | Star "char \<Rightarrow> bool"
  | StarLazy "char \<Rightarrow> bool"
  | Plus "char \<Rightarrow> bool"
  | Grp nat rx

text \<open>Every split of \<open>s\<close> after a run of characters of the class, shortest first.\<close>

fun runs :: "(char \<Rightarrow> bool) \<Rightarrow> string \<Rightarrow> (string \<times> string) list" where
  "runs P [] = [([], [])]"
| "runs P (x # xs) =
     ([], x # xs) # (if P x then map (\<lambda>(m, r). (x # m, r)) (runs P xs) else [])"

definition word_before :: "char option \<Rightarrow> bool" where
  "word_before prev = (case prev of None \<Rightarrow> False | Some c \<Rightarrow> is_word c)"

definition word_after :: "string \<Rightarrow> bool" where
  "word_after s = (case s of [] \<Rightarrow> False | c # _ \<Rightarrow> is_word c)"

definition prev_after :: "char option \<Rightarrow> string \<Rightarrow> char option" where
  "prev_after prev m = (if m = [] then prev else Some (last m))"

fun rmatch :: "rx \<Rightarrow> char option \<Rightarrow> string \<Rightarrow> caps \<Rightarrow> (string \<times> string \<times> caps) list" where
  "rmatch (Cls P) prev s c =
     (case s of [] \<Rightarrow> [] | x # xs \<Rightarrow> if P x then [([x], xs, c)] else [])"
| "rmatch Eps prev s c = [([], s, c)]"
| "rmatch WordB prev s c = (if word_before prev = word_after s then [] else [([], s, c)])"
| "rmatch (Seq r1 r2) prev s c =
     concat (map (\<lambda>(m1, s1, c1).
                map (\<lambda>(m2, s2, c2). (m1 @ m2, s2, c2)) (rmatch r2 (prev_after prev m1) s1 c1))
             (rmatch r1 prev s c))"
| "rmatch (Alt r1 r2) prev s c = rmatch r1 prev s c @ rmatch r2 prev s c"
| "rmatch (Star P) prev s c = map (\<lambda>(m, r). (m, r, c)) (rev (runs P s))"
| "rmatch (StarLazy P) prev s c = map (\<lambda>(m, r). (m, r, c)) (runs P s)"
| "rmatch (Plus P) prev s c = map (\<lambda>(m, r). (m, r, c)) (rev (tl (runs P s)))"
| "rmatch (Grp n r) prev s c = map (\<lambda>(m, r, c'). (m, r, (n, m) # c')) (rmatch r prev s c)"

text \<open>The match the matcher reports at a position: the first one it finds.\<close>

definition match_here :: "rx \<Rightarrow> char option \<Rightarrow> string \<Rightarrow> (string \<times> caps) option" where
  "match_here r prev s =
     (case rmatch r prev s [] of [] \<Rightarrow> None | (m, _, c) # _ \<Rightarrow> Some (m, c))"

text \<open>\<open>m.group(n)\<close> for a group that took part in the match.\<close>

definition grp :: "caps \<Rightarrow> nat \<Rightarrow> string" where
  "grp c n = (case map_of c n of None \<Rightarrow> [] | Some m \<Rightarrow> m)"

text \<open>A literal string, and the same under \<open>re.I\<close>.\<close>

definition lit :: "string \<Rightarrow> rx" where
  "lit s = foldr (\<lambda>ch r. Seq (Cls (\<lambda>x. x = ch)) r) s Eps"

definition liti :: "string \<Rightarrow> rx" where
  "liti s = foldr (\<lambda>ch r. Seq (Cls (\<lambda>x. lower_char x = ch)) r) (lower s) Eps"

text \<open>\<open>re.match\<close> (as a truth value), \<open>re.search\<close> (as a truth value), \<open>re.fullmatch\<close>.\<close>

definition re_match :: "rx \<Rightarrow> string \<Rightarrow> bool" where
  "re_match r s = (rmatch r None s [] \<noteq> [])"

fun search_from :: "rx \<Rightarrow> char option \<Rightarrow> string \<Rightarrow> bool" where
  "search_from r prev [] = (rmatch r prev [] [] \<noteq> [])"
| "search_from r prev (x # xs) = (rmatch r prev (x # xs) [] \<noteq> [] \<or> search_from r (Some x) xs)"

definition re_search :: "rx \<Rightarrow> string \<Rightarrow> bool" where
  "re_search r s = search_from r None s"

definition re_fullmatch :: "rx \<Rightarrow> string \<Rightarrow> bool" where
  "re_fullmatch r s = list_ex (\<lambda>(m, rest, c). rest = []) (rmatch r None s [])"

text \<open>
  \<open>re.sub\<close>, \<open>re.split\<close> and the callback form of \<open>sub\<close> scan left to right, take the
  first match at the leftmost position that has one and go on after it. The scan is a
  recursion on the text with a counter of characters still inside the last match. No
  pattern of the source matches the empty string; a position whose match is empty is
  passed as a position without a match.
\<close>

fun sub_go ::
  "rx \<Rightarrow> (caps \<Rightarrow> string) \<Rightarrow> nat option \<Rightarrow> nat \<Rightarrow> char option \<Rightarrow> string \<Rightarrow> string" where
  "sub_go r repl cnt k prev [] = []"
| "sub_go r repl cnt (Suc k) prev (x # xs) = sub_go r repl cnt k (Some x) xs"
| "sub_go r repl cnt 0 prev (x # xs) =
     (if cnt = Some 0 then x # xs
      else
        (case match_here r prev (x # xs) of
           None \<Rightarrow> x # sub_go r repl cnt 0 (Some x) xs
         | Some (m, c) \<Rightarrow>
             if m = [] then x # sub_go r repl cnt 0 (Some x) xs
             else repl c @ sub_go r repl (map_option (\<lambda>n. n - 1) cnt) (length m - 1) (Some x) xs))"

text \<open>\<open>re.sub(pattern, repl, s)\<close> and \<open>re.sub(pattern, repl, s, count=n)\<close>.\<close>

definition re_sub :: "rx \<Rightarrow> (caps \<Rightarrow> string) \<Rightarrow> string \<Rightarrow> string" where
  "re_sub r repl s = sub_go r repl None 0 None s"

definition re_sub_count :: "rx \<Rightarrow> (caps \<Rightarrow> string) \<Rightarrow> nat \<Rightarrow> string \<Rightarrow> string" where
  "re_sub_count r repl n s = sub_go r repl (Some n) 0 None s"

text \<open>
  \<open>re.split\<close> for a pattern that is one capture group: the texts between the matches
  alternate with the text of group 1.
\<close>

fun split_go :: "rx \<Rightarrow> nat \<Rightarrow> char option \<Rightarrow> string \<Rightarrow> string \<Rightarrow> string list" where
  "split_go r k prev cur [] = [cur]"
| "split_go r (Suc k) prev cur (x # xs) = split_go r k (Some x) cur xs"
| "split_go r 0 prev cur (x # xs) =
     (case match_here r prev (x # xs) of
        None \<Rightarrow> split_go r 0 (Some x) (cur @ [x]) xs
      | Some (m, c) \<Rightarrow>
          if m = [] then split_go r 0 (Some x) (cur @ [x]) xs
          else cur # grp c 1 # split_go r (length m - 1) (Some x) [] xs)"

definition re_split :: "rx \<Rightarrow> string \<Rightarrow> string list" where
  "re_split r s = split_go r 0 None [] s"

text \<open>
  \<open>str.replace(old, new)\<close> for a non-empty \<open>old\<close>: every occurrence, leftmost first,
  without overlap.
\<close>

fun replace_go :: "string \<Rightarrow> string \<Rightarrow> nat \<Rightarrow> string \<Rightarrow> string" where
  "replace_go old new k [] = []"
| "replace_go old new (Suc k) (x # xs) = replace_go old new k xs"
| "replace_go old new 0 (x # xs) =
     (if prefix old (x # xs) then new @ replace_go old new (length old - 1) xs
      else x # replace_go old new 0 xs)"

definition replace :: "string \<Rightarrow> string \<Rightarrow> string \<Rightarrow> string" where
  "replace s old new = replace_go old new 0 s"

section \<open>Language Normalizer\<close>

definition LANG_MAP :: "(string \<times> string) list" where
  "LANG_MAP =
     [(''en'', ''en''), (''en-gb'', ''en''), (''en-us'', ''en''),
      (''ar'', ''ar''), (''ru'', ''ru''), (''fr'', ''fr''), (''es'', ''es''),
      (''de'', ''de''), (''it'', ''it''),
      (''zh'', ''zh''), (''zh-cn'', ''zh''), (''zh-hans'', ''zh''), (''zh-hant'', ''zh'')]"

definition RTL :: "string list" where
  "RTL = [''ar'']"

definition BRAND_TOKENS :: "string list" where
  "BRAND_TOKENS = [''PEN.ai'', ''PEN'', ''Cognitive College'', ''More House'', ''PEN Reply'']"

definition normalise_lang :: "string \<Rightarrow> string" where
  "normalise_lang s =
     (if s = [] then ''en''
      else (case map_of LANG_MAP (lower (strip s)) of None \<Rightarrow> ''en'' | Some l \<Rightarrow> l))"

definition is_rtl :: "string \<Rightarrow> bool" where
  "is_rtl lang = (normalise_lang lang \<in> set RTL)"

section \<open>Values that come back from the provider\<close>

text \<open>
  \<open>r.json()\<close> is untyped: the body is any JSON value, and the source reads it with
  \<open>.get\<close> and indexing. The values and the exceptions of those reads are modelled as they
  are in Python. A JSON number is modelled by an integer.
\<close>

datatype json =
    JNull
  | JBool bool
  | JNum int
  | JStr string
  | JArr "json list"
  | JObj "(string \<times> json) list"

datatype error = AttributeError | IndexError | KeyError | TypeError

text \<open>\<open>requests.post\<close>, \<open>raise_for_status\<close> and \<open>r.json()\<close>: an exception, or the parsed body.\<close>

datatype response = Failed | Body json

text \<open>The provider, called with the URL, the texts, the key and the target language.\<close>

type_synonym provider = "string \<Rightarrow> string list \<Rightarrow> string \<Rightarrow> string \<Rightarrow> response"

text \<open>\<open>v.get(k, default)\<close>: only a dict has \<open>get\<close>.\<close>

definition py_get :: "json \<Rightarrow> string \<Rightarrow> json \<Rightarrow> error + json" where
  "py_get v k dflt =
     (case v of
        JObj kvs \<Rightarrow> Inr (case map_of kvs k of None \<Rightarrow> dflt | Some x \<Rightarrow> x)
      | _ \<Rightarrow> Inl AttributeError)"

text \<open>\<open>v[i]\<close> for a non-negative integer \<open>i\<close>.\<close>

definition py_index :: "json \<Rightarrow> nat \<Rightarrow> error + json" where
  "py_index v i =
     (case v of
        JArr xs \<Rightarrow> if i < length xs then Inr (xs ! i) else Inl IndexError
      | JStr s \<Rightarrow> if i < length s then Inr (JStr [s ! i]) else Inl IndexError
      | JObj kvs \<Rightarrow> Inl KeyError
      | _ \<Rightarrow> Inl TypeError)"

text \<open>A list comprehension whose element expression can raise: the first exception wins.\<close>

fun collect :: "(error + 'a) list \<Rightarrow> error + 'a list" where
  "collect [] = Inr []"
| "collect (Inl e # xs) = Inl e"
| "collect (Inr x # xs) = (case collect xs of Inl e \<Rightarrow> Inl e | Inr ys \<Rightarrow> Inr (x # ys))"

section \<open>Batch Translation Client\<close>

text \<open>
  \<open>DEEPL_API_KEY\<close> is read from the environment when the module is loaded; it is the
  parameter \<open>key\<close> of every function that depends on it.
\<close>

definition DEEPL_URL :: "string \<Rightarrow> string option" where
  "DEEPL_URL key = (if key \<noteq> [] then Some ''https://api-free.deepl.com/v2/translate'' else None)"

definition translation_item :: "json \<Rightarrow> string list \<Rightarrow> nat \<Rightarrow> error + json" where
  "translation_item outv texts i =
     (case py_index outv i of
        Inl e \<Rightarrow> Inl e
      | Inr item \<Rightarrow> py_get item ''text'' (JStr (texts ! i)))"

definition deepl_batch :: "string \<Rightarrow> provider \<Rightarrow> string list \<Rightarrow> string \<Rightarrow> json list" where
  "deepl_batch key post texts lang0 =
     (let lang = normalise_lang lang0 in
      if texts = [] then map JStr texts
      else if key = [] \<or> DEEPL_URL key = None \<or> lang = ''en'' then map JStr texts
      else
        (case post (the (DEEPL_URL key)) texts key (upper lang) of
           Failed \<Rightarrow> map JStr texts
         | Body j \<Rightarrow>
             (case py_get j ''translations'' (JArr []) of
                Inl e \<Rightarrow> map JStr texts
              | Inr outv \<Rightarrow>
                  (case collect (map (translation_item outv texts) [0..<length texts]) of
                     Inl e \<Rightarrow> map JStr texts
                   | Inr res \<Rightarrow> res))))"

section \<open>Protection Codec\<close>

fun alts :: "rx list \<Rightarrow> rx" where
  "alts [] = Eps"
| "alts [r] = r"
| "alts (r # rs) = Alt r (alts rs)"

text \<open>\<open>sorted(BRAND_TOKENS, key=len, reverse=True)\<close>; the five lengths are distinct.\<close>

definition sorted_brands :: "string list" where
  "sorted_brands = rev (sort_key length BRAND_TOKENS)"

definition TOKEN_RE :: "rx option" where
  "TOKEN_RE = (if BRAND_TOKENS = [] then None else Some (alts (map lit sorted_brands)))"

definition any_char :: "char \<Rightarrow> bool" where
  "any_char c = True"

definition BRACK_RE :: rx where
  "BRACK_RE =
     Grp 1 (Alt (Seq (lit ''{{'') (Seq (StarLazy any_char) (lit ''}}'')))
                (Seq (lit ''[['') (Seq (StarLazy any_char) (lit '']]''))))"

definition marker :: "string \<Rightarrow> nat \<Rightarrow> string" where
  "marker kind i = ''__'' @ kind @ ''_'' @ str_of_nat i @ ''__''"

text \<open>
  \<open>pattern.sub(sub, s)\<close> with the callback that appends the match to \<open>bag\<close> and returns
  the marker of its index.
\<close>

fun protect_go ::
  "rx \<Rightarrow> string \<Rightarrow> nat \<Rightarrow> char option \<Rightarrow> string list \<Rightarrow> string \<Rightarrow> string \<times> string list" where
  "protect_go r kind k prev bag [] = ([], bag)"
| "protect_go r kind (Suc k) prev bag (x # xs) = protect_go r kind k (Some x) bag xs"
| "protect_go r kind 0 prev bag (x # xs) =
     (case match_here r prev (x # xs) of
        None \<Rightarrow> (let (t, b) = protect_go r kind 0 (Some x) bag xs in (x # t, b))
      | Some (m, c) \<Rightarrow>
          if m = [] then (let (t, b) = protect_go r kind 0 (Some x) bag xs in (x # t, b))
          else (let (t, b) = protect_go r kind (length m - 1) (Some x) (bag @ [m]) xs
                in (marker kind (length bag) @ t, b)))"

definition protect_brands :: "string \<Rightarrow> string \<times> string list" where
  "protect_brands s =
     (case TOKEN_RE of
        None \<Rightarrow> (s, [])
      | Some r \<Rightarrow> if s = [] then (s, []) else protect_go r ''PENBRAND'' 0 None [] s)"

definition protect_brackets :: "string \<Rightarrow> string \<times> string list" where
  "protect_brackets s =
     (if s = [] then (s, []) else protect_go BRACK_RE ''PENPROT'' 0 None [] s)"

text \<open>
  \<open>for i, val in enumerate(bag): s = s.replace(marker, val)\<close>. The argument is what the
  provider returned; \<open>replace\<close> exists on a \<open>str\<close> only.
\<close>

fun restore_go :: "string \<Rightarrow> nat \<Rightarrow> json \<Rightarrow> string list \<Rightarrow> error + json" where
  "restore_go kind i s [] = Inr s"
| "restore_go kind i s (val # bag) =
     (case s of
        JStr t \<Rightarrow> restore_go kind (Suc i) (JStr (replace t (marker kind i) val)) bag
      | _ \<Rightarrow> Inl AttributeError)"

definition restore_brands :: "json \<Rightarrow> string list \<Rightarrow> error + json" where
  "restore_brands s bag = restore_go ''PENBRAND'' 0 s bag"

definition restore_brackets :: "json \<Rightarrow> string list \<Rightarrow> error + json" where
  "restore_brackets s bag = restore_go ''PENPROT'' 0 s bag"

section \<open>Skip Classifier\<close>

definition NONWORD_RE :: rx where
  "NONWORD_RE = Plus (\<lambda>c. \<not> is_word c \<or> c = CHR ''_'')"

definition numeric_char :: "char \<Rightarrow> bool" where
  "numeric_char c = (is_digit c \<or> c \<in> set ''.,:-+()%'' \<or> is_space c)"

definition NUMERIC_RE :: rx where
  "NUMERIC_RE = Seq (Star is_space) (Seq (Plus numeric_char) (Star is_space))"

definition should_skip_text :: "string \<Rightarrow> bool" where
  "should_skip_text text =
     (if text = [] \<or> blank text then True
      else if length (strip text) \<le> 1 then True
      else if re_fullmatch NONWORD_RE text then True
      else if re_fullmatch NUMERIC_RE text then True
      else False)"

section \<open>Tokenizer/Splicer\<close>

definition not_gt :: "char \<Rightarrow> bool" where
  "not_gt c = (c \<noteq> CHR ''>'')"

definition not_dq :: "char \<Rightarrow> bool" where
  "not_dq c = (c \<noteq> CHR 0x22)"

definition TAG_RE :: rx where
  "TAG_RE = Grp 1 (Seq (lit ''<'') (Seq (Plus not_gt) (lit ''>'')))"

definition startswith :: "string \<Rightarrow> string \<Rightarrow> bool" where
  "startswith s p = prefix p s"

definition is_opening :: "string \<Rightarrow> string \<Rightarrow> bool" where
  "is_opening tagname t =
     (re_match (Seq (liti ''<'') (Seq (Star is_space) (Seq (liti tagname) WordB))) t
      \<and> \<not> startswith t ''</'')"

definition is_closing :: "string \<Rightarrow> string \<Rightarrow> bool" where
  "is_closing tagname t =
     re_match (Seq (liti ''<'') (Seq (Star is_space) (Seq (liti ''/'')
               (Seq (Star is_space) (Seq (liti tagname) WordB))))) t"

record scan_state =
  out :: "string list"
  jobs :: "string list"
  jobs_idx :: "nat list"
  jobs_brandbags :: "string list list"
  jobs_brackbags :: "string list list"
  in_script :: bool
  in_style :: bool

definition scan_init :: scan_state where
  "scan_init =
     \<lparr>out = [], jobs = [], jobs_idx = [], jobs_brandbags = [], jobs_brackbags = [],
      in_script = False, in_style = False\<rparr>"

text \<open>The four context updates of a tag, in the order of the source.\<close>

definition track :: "string \<Rightarrow> scan_state \<Rightarrow> scan_state" where
  "track t st =
     (let st1 = (if is_opening ''script'' t then st\<lparr>in_script := True\<rparr> else st);
          st2 = (if is_closing ''script'' t then st1\<lparr>in_script := False\<rparr> else st1);
          st3 = (if is_opening ''style'' t then st2\<lparr>in_style := True\<rparr> else st2)
      in (if is_closing ''style'' t then st3\<lparr>in_style := False\<rparr> else st3))"

text \<open>One turn of \<open>for p in parts\<close>.\<close>

definition scan_step :: "string \<Rightarrow> scan_state \<Rightarrow> scan_state" where
  "scan_step p st =
     (if startswith p ''<'' then (let st' = track p st in st'\<lparr>out := out st' @ [p]\<rparr>)
      else if in_script st \<or> in_style st then st\<lparr>out := out st @ [p]\<rparr>
      else if should_skip_text p then st\<lparr>out := out st @ [p]\<rparr>
      else
        (let (s1, brandbag) = protect_brands p;
             (s2, brackbag) = protect_brackets s1
         in st\<lparr>jobs_idx := jobs_idx st @ [length (out st)],
                jobs_brandbags := jobs_brandbags st @ [brandbag],
                jobs_brackbags := jobs_brackbags st @ [brackbag],
                jobs := jobs st @ [s2],
                out := out st @ [[]]\<rparr>))"

definition scan_parts :: "string list \<Rightarrow> scan_state \<Rightarrow> scan_state" where
  "scan_parts parts st = fold scan_step parts st"

text \<open>
  \<open>for i, s in enumerate(translated)\<close>: restore brackets, then brands, and write the
  result at the reserved position. The list \<open>outv\<close> holds what the provider returned,
  which need not be a \<open>str\<close>.
\<close>

fun fill_go :: "scan_state \<Rightarrow> nat \<Rightarrow> json list \<Rightarrow> json list \<Rightarrow> error + json list" where
  "fill_go st i [] outv = Inr outv"
| "fill_go st i (s # rest) outv =
     (if length (jobs_brackbags st) \<le> i then Inl IndexError
      else
        (case restore_brackets s (jobs_brackbags st ! i) of
           Inl e \<Rightarrow> Inl e
         | Inr s1 \<Rightarrow>
             if length (jobs_brandbags st) \<le> i then Inl IndexError
             else
               (case restore_brands s1 (jobs_brandbags st ! i) of
                  Inl e \<Rightarrow> Inl e
                | Inr s2 \<Rightarrow>
                    if length (jobs_idx st) \<le> i then Inl IndexError
                    else if length outv \<le> jobs_idx st ! i then Inl IndexError
                    else fill_go st (Suc i) rest (outv[jobs_idx st ! i := s2]))))"

text \<open>\<open>"".join(out)\<close>: every item has to be a \<open>str\<close>.\<close>

fun py_join :: "json list \<Rightarrow> error + string" where
  "py_join [] = Inr []"
| "py_join (JStr s # vs) = (case py_join vs of Inl e \<Rightarrow> Inl e | Inr t \<Rightarrow> Inr (s @ t))"
| "py_join (_ # vs) = Inl TypeError"

text \<open>The token list after the translated segments are written back, before the join.\<close>

definition splice :: "string \<Rightarrow> provider \<Rightarrow> string \<Rightarrow> string \<Rightarrow> error + json list" where
  "splice key post html lang =
     (let parts = re_split TAG_RE html;
          st = scan_parts parts scan_init
      in if jobs st \<noteq> [] then fill_go st 0 (deepl_batch key post (jobs st) lang) (map JStr (out st))
         else Inr (map JStr (out st)))"

section \<open>Document Post-Processor\<close>

definition HTML_OPEN_RE :: rx where
  "HTML_OPEN_RE = Seq (liti ''<html'') WordB"

definition LANG_ATTR_RE :: rx where
  \<open>LANG_ATTR_RE =
     Seq (Grp 1 (Seq (liti ''<html'') (Seq WordB (StarLazy not_gt))))
         (Seq (Plus is_space) (Seq (liti ''lang="'') (Seq (Star not_dq) (liti ''"''))))\<close>

definition HTML_TAG_RE :: rx where
  "HTML_TAG_RE =
     Seq (Grp 1 (Seq (liti ''<html'') WordB)) (Seq (Grp 2 (StarLazy not_gt)) (liti ''>''))"

definition HAS_DIR_RE :: rx where
  "HAS_DIR_RE = Seq (liti ''<html'') (Seq (Star not_gt) (Seq WordB (liti ''dir='')))"

definition DIR_ATTR_RE :: rx where
  \<open>DIR_ATTR_RE =
     Seq (Grp 1 (Seq (liti ''<html'') (Seq WordB (Seq (Star not_gt) WordB))))
         (Seq (liti ''dir="'') (Seq (Star not_dq) (liti ''"'')))\<close>

definition HEAD_END_RE :: rx where
  "HEAD_END_RE = liti ''</head>''"

definition set_html_lang :: "string \<Rightarrow> string \<Rightarrow> string" where
  \<open>set_html_lang lang html2 =
     (let h1 = re_sub LANG_ATTR_RE (\<lambda>c. grp c 1) html2;
          h2 = re_sub HTML_TAG_RE (\<lambda>c. grp c 1 @ '' lang="'' @ lang @ ''"'' @ grp c 2 @ ''>'') h1
      in if is_rtl lang then
           (if re_search HAS_DIR_RE h2
            then re_sub DIR_ATTR_RE (\<lambda>c. grp c 1 @ ''dir="rtl"'') h2
            else re_sub HTML_TAG_RE (\<lambda>c. grp c 1 @ '' dir="rtl"'' @ grp c 2 @ ''>'') h2)
         else re_sub DIR_ATTR_RE (\<lambda>c. grp c 1) h2)\<close>

definition mark_lang :: "string \<Rightarrow> string \<Rightarrow> string" where
  \<open>mark_lang lang html2 =
     re_sub_count HEAD_END_RE (\<lambda>c. ''<meta name="penai-lang" content="'' @ lang @ ''"></head>'') 1
       html2\<close>

definition postprocess :: "string \<Rightarrow> string \<Rightarrow> string" where
  "postprocess lang html2 =
     (let h = (if re_search HTML_OPEN_RE html2 then set_html_lang lang html2 else html2)
      in if re_search HEAD_END_RE h then mark_lang lang h else h)"

section \<open>The entry points\<close>

definition translate_html_fragment :: "string \<Rightarrow> provider \<Rightarrow> string \<Rightarrow> string \<Rightarrow> error + string" where
  "translate_html_fragment key post html lang0 =
     (let lang = normalise_lang lang0 in
      if lang = ''en'' \<or> html = [] \<or> blank html then Inr html
      else
        (case splice key post html lang of
           Inl e \<Rightarrow> Inl e
         | Inr outv \<Rightarrow>
             (case py_join outv of
                Inl e \<Rightarrow> Inl e
              | Inr html2 \<Rightarrow> Inr (postprocess lang html2))))"

definition translate_text :: "string \<Rightarrow> provider \<Rightarrow> string \<Rightarrow> string \<Rightarrow> error + json" where
  "translate_text key post text lang0 =
     (if text = [] \<or> blank text then Inr (JStr text)
      else
        (let lang = normalise_lang lang0 in
         if lang = ''en'' then Inr (JStr text)
         else
           (let (s1, brands) = protect_brands text;
                (s2, bracks) = protect_brackets s1
            in case py_index (JArr (deepl_batch key post [s2] lang)) 0 of
                 Inl e \<Rightarrow> Inl e
               | Inr outv \<Rightarrow>
                   (case restore_brackets outv bracks of
                      Inl e \<Rightarrow> Inl e
                    | Inr o1 \<Rightarrow> restore_brands o1 brands))))"

section \<open>The caller: language detection and response translation\<close>

text \<open>
  The part of the Flask request and response that the two hooks read and write. Header
  names are compared without case, as the response's header object does.
\<close>

record request =
  args :: "(string \<times> string) list"
  pen_lang :: "string option"

record http_response =
  status_code :: nat
  headers :: "(string \<times> string) list"
  direct_passthrough :: bool
  data :: string

definition SUPPORTED_LANGS :: "string list" where
  "SUPPORTED_LANGS = [''en'', ''zh'', ''ar'', ''ru'', ''fr'', ''es'', ''de'', ''it'']"

definition args_get :: "request \<Rightarrow> string \<Rightarrow> string \<Rightarrow> string" where
  "args_get req k dflt = (case map_of (args req) k of None \<Rightarrow> dflt | Some v \<Rightarrow> v)"

definition set_lang :: "request \<Rightarrow> request" where
  "set_lang req =
     (let lang_raw = args_get req ''lang'' ''en'';
          lang = normalise_lang lang_raw;
          lang' = (if lang \<notin> set SUPPORTED_LANGS then ''en'' else lang)
      in req\<lparr>pen_lang := Some lang'\<rparr>)"

definition header_get :: "(string \<times> string) list \<Rightarrow> string \<Rightarrow> string option" where
  "header_get hs k = map_of (map (\<lambda>(n, v). (lower n, v)) hs) (lower k)"

definition header_set :: "(string \<times> string) list \<Rightarrow> string \<Rightarrow> string \<Rightarrow> (string \<times> string) list" where
  "header_set hs k v = filter (\<lambda>(n, _). lower n \<noteq> lower k) hs @ [(k, v)]"

definition header_setdefault ::
  "(string \<times> string) list \<Rightarrow> string \<Rightarrow> string \<Rightarrow> (string \<times> string) list" where
  "header_setdefault hs k v = (case header_get hs k of None \<Rightarrow> hs @ [(k, v)] | Some _ \<Rightarrow> hs)"

definition ERROR_PAGE :: string where
  "ERROR_PAGE = ''<!doctype html><title>Error</title><body>Temporary translation error.</body>''"

definition translate_response ::
  "string \<Rightarrow> provider \<Rightarrow> request \<Rightarrow> http_response \<Rightarrow> http_response" where
  "translate_response key post req resp =
     (if lower (args_get req ''translate'' []) = ''off'' then resp
      else
        (let lang = (case pen_lang req of None \<Rightarrow> ''en'' | Some l \<Rightarrow> l);
             ctype = lower (case header_get (headers resp) ''Content-Type'' of
                              None \<Rightarrow> [] | Some v \<Rightarrow> v)
         in if lang \<noteq> ''en'' \<and> status_code resp = 200 \<and> contains ctype ''text/html''
               \<and> direct_passthrough resp = False
            then
              (let original = data resp in
               if blank original then resp
               else
                 (case translate_html_fragment key post original lang of
                    Inl e \<Rightarrow> (if blank (data resp) then resp\<lparr>data := ERROR_PAGE\<rparr> else resp)
                  | Inr translated \<Rightarrow>
                      if translated \<noteq> [] \<and> \<not> blank translated
                      then resp\<lparr>data := translated,
                                headers := header_set
                                  (header_setdefault (headers resp)
                                     ''Cache-Control'' ''public, max-age=60'')
                                  ''Vary'' ''Accept-Language''\<rparr>
                      else resp\<lparr>data := original\<rparr>))
            else resp))"

section \<open>The skip classifier as the specification words it\<close>

text \<open>
  The specification's four cases: empty or all whitespace; trimmed length at most one;
  the trimmed text has only non-word or punctuation characters; the text has only digits,
  the punctuation \<open>. , : - + ( ) %\<close> and whitespace. Punctuation is the ASCII
  punctuation (codes 33 to 47, 58 to 64, 91 to 96 and 123 to 126).
\<close>

definition is_punct :: "char \<Rightarrow> bool" where
  "is_punct c =
     (between 33 47 (code c) \<or> between 58 64 (code c) \<or> between 91 96 (code c)
      \<or> between 123 126 (code c))"

definition skip_spec :: "string \<Rightarrow> bool" where
  "skip_spec text =
     (text = [] \<or> list_all is_space text \<or> length (strip text) \<le> 1
      \<or> list_all (\<lambda>c. \<not> is_word c \<or> is_punct c) (strip text)
      \<or> list_all (\<lambda>c. is_digit c \<or> c \<in> set ''.,:-+()%'' \<or> is_space c) text)"

section \<open>Providers used in the examples\<close>

text \<open>A provider whose call raises (network error, status, timeout).\<close>

definition failing_post :: provider where
  "failing_post url texts key lang = Failed"

text \<open>A provider that answers every call with the same body.\<close>

definition const_post :: "json \<Rightarrow> provider" where
  "const_post j url texts key lang = Body j"

text \<open>A well-formed body: one translation object per text.\<close>

definition translations_body :: "string list \<Rightarrow> json" where
  "translations_body ts = JObj [(''translations'', JArr (map (\<lambda>t. JObj [(''text'', JStr t)]) ts))]"

text \<open>The stub of the specification's scenario: it upper-cases every text.\<close>

definition upper_post :: provider where
  "upper_post url texts key lang = Body (translations_body (map upper texts))"

section \<open>Notions used to state the properties\<close>

text \<open>A value that is a \<open>str\<close>.\<close>

definition is_str :: "json \<Rightarrow> bool" where
  "is_str v = (case v of JStr _ \<Rightarrow> True | _ \<Rightarrow> False)"


text \<open>The restoring loop on a \<open>str\<close>, where \<open>replace\<close> cannot fail.\<close>

fun restore_str :: "string \<Rightarrow> nat \<Rightarrow> string \<Rightarrow> string list \<Rightarrow> string" where
  "restore_str kind i t [] = t"
| "restore_str kind i t (val # bag) = restore_str kind (Suc i) (replace t (marker kind i) val) bag"

text \<open>
  A token that the loop passes through unchanged: a tag, a text in script or style context,
  or a text that the skip classifier rejects.
\<close>

definition passes :: "string \<Rightarrow> scan_state \<Rightarrow> bool" where
  "passes p st = (startswith p ''<'' \<or> in_script st \<or> in_style st \<or> should_skip_text p)"

text \<open>The invariant of the loop: the four job lists grow together, and every job index is a
  position of the output list.\<close>

definition scan_inv :: "scan_state \<Rightarrow> bool" where
  "scan_inv st =
     (length (jobs_idx st) = length (jobs st) \<and> length (jobs_brandbags st) = length (jobs st)
      \<and> length (jobs_brackbags st) = length (jobs st)
      \<and> list_all (\<lambda>j. j < length (out st)) (jobs_idx st))"

section \<open>Shielded text\<close>



definition plain :: "string \<Rightarrow> bool" where
  "plain t = (CHR ''_'' \<notin> set t)"








section \<open>Properties of the regular-expression matcher\<close>

lemma runs_iff: "(m, r) \<in> set (runs P s) \<longleftrightarrow> s = m @ r \<and> list_all P m"
proof (induction s arbitrary: m)
  case Nil
  then show ?case by auto
next
  case (Cons x xs)
  show ?case
  proof (cases m)
    case Nil
    then show ?thesis by auto
  next
    case (Cons y ys)
    then show ?thesis using Cons.IH [of ys] by auto
  qed
qed

lemma tl_runs_iff: "(m, r) \<in> set (tl (runs P s)) \<longleftrightarrow> s = m @ r \<and> list_all P m \<and> m \<noteq> []"
proof (cases s)
  case Nil
  then show ?thesis by auto
next
  case (Cons x xs)
  show ?thesis
  proof (cases m)
    case Nil
    then show ?thesis using Cons by auto
  next
    case (Cons y ys)
    then show ?thesis using \<open>s = x # xs\<close> runs_iff [of ys r P xs] by auto
  qed
qed

text \<open>Whatever a pattern matches at a position is a prefix of the text there.\<close>

lemma rmatch_split: "(m, rest, c') \<in> set (rmatch r prev s c) \<Longrightarrow> s = m @ rest"
proof (induction r arbitrary: prev s c m rest c')
  case (Cls P)
  then show ?case by (auto split: list.splits if_splits)
next
  case Eps
  then show ?case by simp
next
  case WordB
  then show ?case by (auto split: if_splits)
next
  case (Seq r1 r2)
  then show ?case by fastforce
next
  case (Alt r1 r2)
  then show ?case by auto
next
  case (Star P)
  then show ?case by (auto simp: runs_iff)
next
  case (StarLazy P)
  then show ?case by (auto simp: runs_iff)
next
  case (Plus P)
  then show ?case by (auto simp: tl_runs_iff)
next
  case (Grp n r)
  then show ?case by auto
qed

section \<open>Lossless split\<close>

lemma match_here_tag:
  assumes "match_here TAG_RE prev s = Some (m, c)"
  shows "grp c 1 = m \<and> prefix m s"
proof -
  from assms obtain rest where in_set: "(m, rest, c) \<in> set (rmatch TAG_RE prev s [])"
    by (auto simp: match_here_def split: list.splits)
  then have "s = m @ rest" by (rule rmatch_split)
  moreover from in_set have "grp c 1 = m"
    by (auto simp: TAG_RE_def grp_def)
  ultimately show ?thesis by simp
qed

lemma split_go_concat:
  "concat (split_go TAG_RE k prev cur s) = cur @ drop k s"
proof (induction TAG_RE k prev cur s rule: split_go.induct)
  case (1 k prev cur)
  then show ?case by simp
next
  case (2 k prev cur x xs)
  then show ?case by simp
next
  case (3 prev cur x xs)
  show ?case
  proof (cases "match_here TAG_RE prev (x # xs)")
    case None
    then show ?thesis using 3 by simp
  next
    case (Some a)
    obtain m c where a: "a = (m, c)" by (cases a)
    show ?thesis
    proof (cases "m = []")
      case True
      then show ?thesis using 3 Some a by simp
    next
      case False
      from match_here_tag [OF Some [unfolded a]] have g: "grp c 1 = m" and p: "prefix m (x # xs)"
        by simp_all
      from p False obtain m' rest where m: "m = x # m'" and xs: "xs = m' @ rest"
        by (cases m) (auto simp: prefix_def)
      show ?thesis using 3(3) [OF Some [unfolded a] refl False] Some a False g m xs by simp
    qed
  qed
qed

text \<open>
  Claim C1. For every input string, splitting it on the tag pattern \<open><[^>]+>\<close> into
  alternating text and tag tokens and joining the tokens again in their order, none of
  them changed, gives back the input string.
\<close>

theorem split_join_lossless: "concat (re_split TAG_RE html) = html"
  by (simp add: re_split_def split_go_concat)

section \<open>Skip classifier\<close>

lemma code_underscore: "c = CHR ''_'' \<longleftrightarrow> code c = 95"
proof -
  have "((of_char c :: nat) = of_char (CHR ''_'')) = (c = CHR ''_'')"
    by (rule of_char_eq_iff)
  moreover have "(of_char (CHR ''_'') :: nat) = 95" by simp
  ultimately show ?thesis by (auto simp: code_def)
qed

lemma space_not_word: "is_space c \<Longrightarrow> \<not> is_word c"
  unfolding is_space_def is_word_def between_def by arith

lemma punct_class: "(\<not> is_word c \<or> is_punct c) \<longleftrightarrow> (\<not> is_word c \<or> c = CHR ''_'')"
  unfolding code_underscore is_word_def is_punct_def between_def by arith

lemma strip_decomp:
  "\<exists>pre post. s = pre @ strip s @ post \<and> list_all is_space pre \<and> list_all is_space post"
proof -
  let ?t = "dropWhile is_space s"
  have 1: "s = takeWhile is_space s @ ?t" by simp
  have 2: "?t = rev (dropWhile is_space (rev ?t)) @ rev (takeWhile is_space (rev ?t))"
    by (metis rev_append rev_rev_ident takeWhile_dropWhile_id)
  have 3: "list_all is_space (takeWhile is_space s)"
    by (simp add: list_all_iff) (meson set_takeWhileD)
  have 4: "list_all is_space (rev (takeWhile is_space (rev ?t)))"
    by (simp add: list_all_iff) (meson set_takeWhileD)
  from 1 2 have "s = takeWhile is_space s @ strip s @ rev (takeWhile is_space (rev ?t))"
    unfolding strip_def by metis
  with 3 4 show ?thesis by blast
qed

lemma blank_iff: "blank s \<longleftrightarrow> list_all is_space s"
proof
  assume "blank s"
  then have "strip s = []" by (simp add: blank_def)
  with strip_decomp [of s] show "list_all is_space s" by auto
next
  assume a: "list_all is_space s"
  then have d: "dropWhile is_space s = []" by (induction s) auto
  show "blank s" unfolding blank_def strip_def d by simp
qed

lemma list_all_strip:
  assumes "\<And>c. is_space c \<Longrightarrow> P c"
  shows "list_all P (strip s) \<longleftrightarrow> list_all P s"
proof -
  from strip_decomp [of s] obtain pre post where
    s: "s = pre @ strip s @ post" and a: "list_all is_space pre" and b: "list_all is_space post"
    by blast
  from a b assms have "list_all P pre" "list_all P post" by (auto simp: list_all_iff)
  then have "list_all P (pre @ strip s @ post) \<longleftrightarrow> list_all P (strip s)" by simp
  with s show ?thesis by simp
qed

lemma in_tagged: "(m, r, c') \<in> set (map (\<lambda>(m, r). (m, r, c)) xs) \<longleftrightarrow> (m, r) \<in> set xs \<and> c' = c"
  by (induction xs) auto

lemma rmatch_Star_iff:
  "(m, r, c') \<in> set (rmatch (Star P) prev s c) \<longleftrightarrow> s = m @ r \<and> list_all P m \<and> c' = c"
  by (simp only: rmatch.simps in_tagged set_rev runs_iff conj_assoc)

lemma rmatch_StarLazy_iff:
  "(m, r, c') \<in> set (rmatch (StarLazy P) prev s c) \<longleftrightarrow> s = m @ r \<and> list_all P m \<and> c' = c"
  by (simp only: rmatch.simps in_tagged runs_iff conj_assoc)

lemma rmatch_Plus_iff:
  "(m, r, c') \<in> set (rmatch (Plus P) prev s c) \<longleftrightarrow> s = m @ r \<and> list_all P m \<and> m \<noteq> [] \<and> c' = c"
  by (simp only: rmatch.simps in_tagged set_rev tl_runs_iff conj_assoc)

lemma rmatch_Seq_iff:
  "(m, r, c') \<in> set (rmatch (Seq r1 r2) prev s c) \<longleftrightarrow>
     (\<exists>m1 s1 c1 m2. (m1, s1, c1) \<in> set (rmatch r1 prev s c)
        \<and> (m2, r, c') \<in> set (rmatch r2 (prev_after prev m1) s1 c1) \<and> m = m1 @ m2)"
  by fastforce

lemma fullmatch_iff: "re_fullmatch r s \<longleftrightarrow> (\<exists>m c. (m, [], c) \<in> set (rmatch r None s []))"
  by (fastforce simp: re_fullmatch_def list_ex_iff)

lemma fullmatch_Plus: "re_fullmatch (Plus P) s \<longleftrightarrow> s \<noteq> [] \<and> list_all P s"
  unfolding fullmatch_iff rmatch_Plus_iff by auto

lemma fullmatch_numeric:
  assumes sub: "\<And>c. S c \<Longrightarrow> P c"
  shows "re_fullmatch (Seq (Star S) (Seq (Plus P) (Star S))) s \<longleftrightarrow> s \<noteq> [] \<and> list_all P s"
proof
  assume "re_fullmatch (Seq (Star S) (Seq (Plus P) (Star S))) s"
  then obtain m c where "(m, [], c) \<in> set (rmatch (Seq (Star S) (Seq (Plus P) (Star S))) None s [])"
    unfolding fullmatch_iff by blast
  then obtain m1 s1 c1 m2 where
    a: "(m1, s1, c1) \<in> set (rmatch (Star S) None s [])" and
    b: "(m2, [], c) \<in> set (rmatch (Seq (Plus P) (Star S)) (prev_after None m1) s1 c1)"
    unfolding rmatch_Seq_iff by blast
  from b obtain m3 s3 c3 m4 where
    c: "(m3, s3, c3) \<in> set (rmatch (Plus P) (prev_after None m1) s1 c1)" and
    d: "(m4, [], c) \<in> set (rmatch (Star S) (prev_after (prev_after None m1) m3) s3 c3)"
    unfolding rmatch_Seq_iff by blast
  from a have a': "s = m1 @ s1" "list_all S m1" unfolding rmatch_Star_iff by simp_all
  from c have c': "s1 = m3 @ s3" "list_all P m3" "m3 \<noteq> []" unfolding rmatch_Plus_iff by simp_all
  from d have d': "s3 = m4" "list_all S m4" unfolding rmatch_Star_iff by simp_all
  from a' c' d' sub show "s \<noteq> [] \<and> list_all P s" by (auto simp: list_all_iff)
next
  assume s: "s \<noteq> [] \<and> list_all P s"
  have 1: "([], s, []) \<in> set (rmatch (Star S) None s [])"
    unfolding rmatch_Star_iff by simp
  have 2: "(s, [], []) \<in> set (rmatch (Plus P) (prev_after None []) s [])"
    unfolding rmatch_Plus_iff using s by simp
  have 3: "([], [], []) \<in> set (rmatch (Star S) (prev_after (prev_after None []) s) [] [])"
    unfolding rmatch_Star_iff by simp
  from 2 3 have 4: "(s @ [], [], []) \<in> set (rmatch (Seq (Plus P) (Star S)) (prev_after None []) s [])"
    unfolding rmatch_Seq_iff by blast
  from 1 4 have "([] @ s @ [], [], []) \<in> set (rmatch (Seq (Star S) (Seq (Plus P) (Star S))) None s [])"
    unfolding rmatch_Seq_iff by blast
  then show "re_fullmatch (Seq (Star S) (Seq (Plus P) (Star S))) s"
    unfolding fullmatch_iff by blast
qed

lemma should_skip_text_iff:
  "should_skip_text text \<longleftrightarrow>
     text = [] \<or> list_all is_space text \<or> length (strip text) \<le> 1
     \<or> list_all (\<lambda>c. \<not> is_word c \<or> c = CHR ''_'') text
     \<or> list_all numeric_char text"
proof -
  have n: "re_fullmatch NUMERIC_RE text \<longleftrightarrow> text \<noteq> [] \<and> list_all numeric_char text"
    unfolding NUMERIC_RE_def by (rule fullmatch_numeric) (simp add: numeric_char_def)
  have w: "re_fullmatch NONWORD_RE text \<longleftrightarrow> text \<noteq> [] \<and> list_all (\<lambda>c. \<not> is_word c \<or> c = CHR ''_'') text"
    unfolding NONWORD_RE_def by (rule fullmatch_Plus)
  show ?thesis
    unfolding should_skip_text_def n w blank_iff by auto
qed

text \<open>
  Claim C8. \<open>should_skip_text\<close> is true exactly when the text is empty or all
  whitespace, or its trimmed length is at most one, or the trimmed text has only non-word
  or punctuation characters, or the text has only digits, the punctuation
  \<open>. , : - + ( ) %\<close> and whitespace; it is true for \<open>12.5%\<close> and false for \<open>Hello\<close>.
\<close>

theorem should_skip_text_spec:
  "should_skip_text text = skip_spec text \<and> should_skip_text ''12.5%'' \<and> \<not> should_skip_text ''Hello''"
proof -
  have a: "list_all (\<lambda>c. \<not> is_word c \<or> is_punct c) (strip text)
           \<longleftrightarrow> list_all (\<lambda>c. \<not> is_word c \<or> c = CHR ''_'') text"
    unfolding punct_class
    by (rule list_all_strip) (simp add: space_not_word)
  have "should_skip_text text = skip_spec text"
    unfolding should_skip_text_iff skip_spec_def a numeric_char_def by simp
  moreover have "should_skip_text ''12.5%''" by code_simp
  moreover have "\<not> should_skip_text ''Hello''" by code_simp
  ultimately show ?thesis by simp
qed

theorem should_skip_text_spec_witness:
  "should_skip_text ''  -- 42 --  '' = skip_spec ''  -- 42 --  '' \<and> skip_spec ''  -- 42 --  ''
   \<and> should_skip_text ''Hello, world'' = skip_spec ''Hello, world'' \<and> \<not> skip_spec ''Hello, world''"
proof -
  have "should_skip_text ''  -- 42 --  ''" by code_simp
  moreover have "\<not> should_skip_text ''Hello, world''" by code_simp
  ultimately show ?thesis
    using should_skip_text_spec [of "''  -- 42 --  ''"] should_skip_text_spec [of "''Hello, world''"]
    by simp
qed

section \<open>Identity paths\<close>

text \<open>
  Claim C4. \<open>translate_html_fragment\<close> returns the document unchanged whenever the
  language normalises to the base language \<open>en\<close>, or the document is empty or all
  whitespace.
\<close>

theorem base_language_identity:
  "normalise_lang lang = ''en'' \<or> html = [] \<or> blank html \<Longrightarrow>
   translate_html_fragment key post html lang = Inr html"
  by (simp add: translate_html_fragment_def)

theorem base_language_identity_witness:
  "normalise_lang '' EN-gb'' = ''en'' \<and> blank [CHR '' '', CHR 10] \<and>
   translate_html_fragment ''key'' upper_post ''<p>Hello there</p>'' '' EN-gb'' = Inr ''<p>Hello there</p>'' \<and>
   translate_html_fragment ''key'' upper_post [] ''fr'' = Inr [] \<and>
   translate_html_fragment ''key'' upper_post [CHR '' '', CHR 10] ''fr'' = Inr [CHR '' '', CHR 10]"
proof -
  have l: "normalise_lang '' EN-gb'' = ''en''" by code_simp
  have b: "blank [CHR '' '', CHR 10]" by code_simp
  show ?thesis
    using l b base_language_identity [of "'' EN-gb''" "''<p>Hello there</p>'' " "''key''" upper_post]
      base_language_identity [of "''fr''" "[]" "''key''" upper_post]
      base_language_identity [of "''fr''" "[CHR '' '', CHR 10]" "''key''" upper_post]
    by simp
qed

text \<open>
  Claim C10. For a language string that is not a key of the alias table after trimming and
  lower-casing, \<open>translate_html_fragment\<close> returns the document unchanged, whatever the
  provider would answer: nothing is translated, no \<open>lang\<close> or \<open>dir\<close> attribute is set and
  no meta marker is inserted.
\<close>

theorem unknown_language_identity:
  "map_of LANG_MAP (lower (strip lang)) = None \<Longrightarrow>
   translate_html_fragment key post html lang = Inr html"
  by (simp add: translate_html_fragment_def normalise_lang_def)

theorem unknown_language_identity_witness:
  "map_of LANG_MAP (lower (strip ''ja'')) = None \<and>
   translate_html_fragment ''key'' upper_post
     ''<html><head></head><body><p>Hello there</p></body></html>'' ''ja''
   = Inr ''<html><head></head><body><p>Hello there</p></body></html>''"
proof -
  have h: "map_of LANG_MAP (lower (strip ''ja'')) = None" by code_simp
  show ?thesis
    using h unknown_language_identity [OF h, of "''key''" upper_post
        "''<html><head></head><body><p>Hello there</p></body></html>''"]
    by simp
qed

section \<open>Batch translation client\<close>

lemma collect_Inr:
  "collect xs = Inr ys \<Longrightarrow> length ys = length xs \<and> (\<forall>i < length xs. xs ! i = Inr (ys ! i))"
proof (induction xs arbitrary: ys rule: collect.induct)
  case 1
  then show ?case by simp
next
  case (2 e xs)
  then show ?case by simp
next
  case (3 x xs)
  from 3(2) obtain zs where zs: "collect xs = Inr zs" and ys: "ys = x # zs"
    by (auto split: sum.splits)
  from 3(1) [OF zs] ys show ?case
    by (auto simp: nth_Cons split: nat.splits)
qed


lemma deepl_batch_identity:
  "texts = [] \<or> normalise_lang lang = ''en'' \<or> key = [] \<Longrightarrow>
   deepl_batch key post texts lang = map JStr texts"
  by (auto simp: deepl_batch_def Let_def)

lemma deepl_batch_failed:
  "post (the (DEEPL_URL key)) texts key (upper (normalise_lang lang)) = Failed \<Longrightarrow>
   deepl_batch key post texts lang = map JStr texts"
  by (auto simp: deepl_batch_def Let_def)

lemma deepl_batch_length: "length (deepl_batch key post texts lang) = length texts"
  by (auto simp: deepl_batch_def Let_def dest: collect_Inr split: response.splits sum.splits)








section \<open>The scan and the splice\<close>

lemma restore_go_str: "restore_go kind i (JStr t) bag = Inr (JStr (restore_str kind i t bag))"
  by (induction bag arbitrary: i t) auto

lemma restore_go_empty: "restore_go kind i v [] = Inr v"
  by simp

lemma track_fields:
  "out (track t st) = out st" "jobs (track t st) = jobs st" "jobs_idx (track t st) = jobs_idx st"
  "jobs_brandbags (track t st) = jobs_brandbags st" "jobs_brackbags (track t st) = jobs_brackbags st"
  by (simp_all add: track_def Let_def)

lemma scan_step_out:
  "out (scan_step p st) = out st @ [if passes p st then p else []]"
  by (auto simp: scan_step_def passes_def Let_def track_fields split: prod.splits)

lemma scan_step_idx:
  "jobs_idx (scan_step p st) = jobs_idx st @ (if passes p st then [] else [length (out st)])"
  by (auto simp: scan_step_def passes_def Let_def track_fields split: prod.splits)

lemma scan_step_lengths:
  "length (jobs (scan_step p st)) = length (jobs st) + (if passes p st then 0 else 1)"
  "length (jobs_brandbags (scan_step p st)) = length (jobs_brandbags st) + (if passes p st then 0 else 1)"
  "length (jobs_brackbags (scan_step p st)) = length (jobs_brackbags st) + (if passes p st then 0 else 1)"
  by (auto simp: scan_step_def passes_def Let_def track_fields split: prod.splits)

lemma scan_inv_init: "scan_inv scan_init"
  by (simp add: scan_inv_def scan_init_def)

lemma scan_inv_step: "scan_inv st \<Longrightarrow> scan_inv (scan_step p st)"
  by (auto simp: scan_inv_def scan_step_out scan_step_idx scan_step_lengths list_all_iff)

lemma scan_parts_snoc: "scan_parts (ps @ [p]) st = scan_step p (scan_parts ps st)"
  by (simp add: scan_parts_def)

lemma scan_inv_parts: "scan_inv st \<Longrightarrow> scan_inv (scan_parts ps st)"
  by (induction ps rule: rev_induct) (simp_all add: scan_parts_snoc scan_inv_step scan_parts_def)










lemma not_blank_not_Nil: "\<not> blank html \<Longrightarrow> html \<noteq> []"
  by (auto simp: blank_def strip_def)


lemma is_str_iff: "is_str v \<longleftrightarrow> (\<exists>t. v = JStr t)"
  by (cases v) (simp_all add: is_str_def)

lemma py_join_strs: "list_all is_str vs \<Longrightarrow> \<exists>s. py_join vs = Inr s"
proof (induction vs)
  case Nil
  then show ?case by simp
next
  case (Cons v vs)
  then obtain t s where "v = JStr t" "py_join vs = Inr s" by (auto simp: is_str_iff)
  then show ?case by simp
qed

lemma fill_go_total:
  assumes "list_all is_str tr" and "list_all is_str outv"
    and "i + length tr \<le> length (jobs_idx st)"
    and "length (jobs_brandbags st) = length (jobs_idx st)"
    and "length (jobs_brackbags st) = length (jobs_idx st)"
    and "list_all (\<lambda>j. j < length outv) (jobs_idx st)"
  shows "\<exists>outv'. fill_go st i tr outv = Inr outv' \<and> list_all is_str outv'"
  using assms
proof (induction st i tr outv rule: fill_go.induct)
  case (1 st i outv)
  then show ?case by simp
next
  case (2 st i s rest outv)
  from 2(2) obtain t where s: "s = JStr t" by (auto simp: is_str_iff)
  let ?s1 = "JStr (restore_str ''PENPROT'' 0 t (jobs_brackbags st ! i))"
  let ?s2 = "JStr (restore_str ''PENBRAND'' 0 (restore_str ''PENPROT'' 0 t (jobs_brackbags st ! i))
                (jobs_brandbags st ! i))"
  have i: "i < length (jobs_idx st)" using 2(4) by simp
  have a: "\<not> length (jobs_brackbags st) \<le> i" using i 2(6) by simp
  have b: "restore_brackets s (jobs_brackbags st ! i) = Inr ?s1"
    by (simp add: s restore_brackets_def restore_go_str)
  have c: "\<not> length (jobs_brandbags st) \<le> i" using i 2(5) by simp
  have d: "restore_brands ?s1 (jobs_brandbags st ! i) = Inr ?s2"
    by (simp add: restore_brands_def restore_go_str)
  have e: "\<not> length (jobs_idx st) \<le> i" using i by simp
  have "jobs_idx st ! i \<in> set (jobs_idx st)" using i by simp
  with 2(7) have "jobs_idx st ! i < length outv" unfolding list_all_iff by blast
  then have f: "\<not> length outv \<le> jobs_idx st ! i" by simp
  have strs: "list_all is_str (outv[jobs_idx st ! i := ?s2])"
    using 2(3) by (auto simp: list_all_iff is_str_def dest!: set_update_subset_insert [THEN subsetD])
  have "\<exists>outv'. fill_go st (Suc i) rest (outv[jobs_idx st ! i := ?s2]) = Inr outv' \<and> list_all is_str outv'"
    using 2(1) [OF a b c d e f _ strs] 2(2,4,5,6,7) by simp
  then show ?case using a b c d e f by simp
qed

lemma splice_total:
  assumes "\<forall>texts l. list_all is_str (deepl_batch key post texts l)"
  shows "\<exists>outv. splice key post html lang = Inr outv \<and> list_all is_str outv"
proof -
  let ?st = "scan_parts (re_split TAG_RE html) scan_init"
  have inv: "scan_inv ?st" by (rule scan_inv_parts [OF scan_inv_init])
  have strs: "list_all is_str (map JStr (out ?st))"
    by (simp add: list_all_iff is_str_def)
  show ?thesis
  proof (cases "jobs ?st \<noteq> []")
    case True
    have "\<exists>outv'. fill_go ?st 0 (deepl_batch key post (jobs ?st) lang) (map JStr (out ?st)) = Inr outv'
            \<and> list_all is_str outv'"
      using inv assms
      by (intro fill_go_total strs) (simp_all add: scan_inv_def deepl_batch_length)
    with True show ?thesis by (simp add: splice_def Let_def)
  next
    case False
    with strs show ?thesis by (simp add: splice_def Let_def)
  qed
qed

lemma translate_total:
  assumes "\<forall>texts l. list_all is_str (deepl_batch key post texts l)"
  shows "\<exists>res. translate_html_fragment key post html lang = Inr res"
proof -
  from splice_total [OF assms, of html "normalise_lang lang"] obtain outv where
    "splice key post html (normalise_lang lang) = Inr outv" "list_all is_str outv" by blast
  moreover from this(2) obtain s where "py_join outv = Inr s" using py_join_strs by blast
  ultimately show ?thesis by (simp add: translate_html_fragment_def Let_def)
qed

lemma deepl_batch_strs_no_key: "list_all is_str (deepl_batch [] post texts l)"
  by (simp add: deepl_batch_identity list_all_iff is_str_def)

lemma deepl_batch_strs_failed:
  "\<forall>u t k l. post u t k l = Failed \<Longrightarrow> list_all is_str (deepl_batch key post texts l)"
  by (simp add: deepl_batch_failed list_all_iff is_str_def)

lemma translate_response_on_raise:
  assumes "translate_html_fragment key post (data resp)
             (case pen_lang req of None \<Rightarrow> ''en'' | Some l \<Rightarrow> l) = Inl e"
  shows "translate_response key post req resp = resp"
  using assms by (simp add: translate_response_def Let_def)

text \<open>
  Claim C6, as the code has it. \<open>translate_html_fragment\<close> returns a string, without
  raising, for every document (malformed or not) and every language whenever all that
  \<open>deepl_batch\<close> hands back are strings, in particular when no credential is configured
  and when the provider call fails. It has no handler of its own: when it raises, the
  caller \<open>translate_response\<close> leaves the response as it was.
\<close>

theorem translate_total_on_strings:
  "((\<forall>texts l. list_all is_str (deepl_batch key post texts l)) \<longrightarrow>
      (\<exists>res. translate_html_fragment key post html lang = Inr res))
   \<and> (key = [] \<longrightarrow> (\<exists>res. translate_html_fragment key post html lang = Inr res))
   \<and> ((\<forall>u t k l. post u t k l = Failed) \<longrightarrow>
      (\<exists>res. translate_html_fragment key post html lang = Inr res))
   \<and> (\<forall>e. translate_html_fragment key post (data resp)
             (case pen_lang req of None \<Rightarrow> ''en'' | Some l \<Rightarrow> l) = Inl e \<longrightarrow>
        translate_response key post req resp = resp)"
proof -
  have a: "(\<forall>texts l. list_all is_str (deepl_batch key post texts l)) \<longrightarrow>
      (\<exists>res. translate_html_fragment key post html lang = Inr res)"
    using translate_total by blast
  have b: "key = [] \<longrightarrow> (\<exists>res. translate_html_fragment key post html lang = Inr res)"
    using translate_total [of key post html lang] deepl_batch_strs_no_key by blast
  have c: "(\<forall>u t k l. post u t k l = Failed) \<longrightarrow>
      (\<exists>res. translate_html_fragment key post html lang = Inr res)"
    using translate_total [of key post html lang] deepl_batch_strs_failed [of post key] by blast
  have d: "\<forall>e. translate_html_fragment key post (data resp)
             (case pen_lang req of None \<Rightarrow> ''en'' | Some l \<Rightarrow> l) = Inl e \<longrightarrow>
        translate_response key post req resp = resp"
    using translate_response_on_raise by blast
  from a b c d show ?thesis by blast
qed

section \<open>Empty translations\<close>


section \<open>Protection codec\<close>




































lemma plain_brands: "b \<in> set BRAND_TOKENS \<Longrightarrow> plain b"
  by (auto simp: BRAND_TOKENS_def plain_def)


section \<open>Evaluations at concrete inputs\<close>



theorem translate_total_on_strings_witness:
  "(\<forall>texts l. list_all is_str (deepl_batch [] upper_post texts l))
   \<and> (\<exists>res. translate_html_fragment [] upper_post ''<b>a < b <<i> text'' ''fr'' = Inr res)
   \<and> (\<exists>res. translate_html_fragment ''key'' failing_post ''<b>a < b <<i> text'' ''fr'' = Inr res)
   \<and> translate_html_fragment ''key''
         (const_post (JObj [(''translations'', JArr [JObj [(''text'', JNull)]])]))
         ''<p>Hello world</p>'' ''fr'' = Inl TypeError
   \<and> translate_response ''key''
         (const_post (JObj [(''translations'', JArr [JObj [(''text'', JNull)]])]))
         \<lparr>args = [(''lang'', ''fr'')], pen_lang = Some ''fr''\<rparr>
         \<lparr>status_code = 200, headers = [(''Content-Type'', ''text/html; charset=utf-8'')],
          direct_passthrough = False, data = ''<p>Hello world</p>''\<rparr>
       = \<lparr>status_code = 200, headers = [(''Content-Type'', ''text/html; charset=utf-8'')],
          direct_passthrough = False, data = ''<p>Hello world</p>''\<rparr>"
proof -
  let ?null = "const_post (JObj [(''translations'', JArr [JObj [(''text'', JNull)]])])"
  let ?req = "\<lparr>args = [(''lang'', ''fr'')], pen_lang = Some ''fr''\<rparr>"
  let ?resp = "\<lparr>status_code = 200, headers = [(''Content-Type'', ''text/html; charset=utf-8'')],
          direct_passthrough = False, data = ''<p>Hello world</p>''\<rparr>"
  have s: "\<forall>texts l. list_all is_str (deepl_batch [] upper_post texts l)"
    by (simp add: deepl_batch_strs_no_key)
  have f: "\<forall>u t k l. failing_post u t k l = Failed" by (simp add: failing_post_def)
  have r: "translate_html_fragment ''key'' ?null ''<p>Hello world</p>'' ''fr'' = Inl TypeError"
    by code_simp
  from translate_total_on_strings [of "[]" upper_post "''<b>a < b <<i> text''" "''fr''"] s
  have 1: "\<exists>res. translate_html_fragment [] upper_post ''<b>a < b <<i> text'' ''fr'' = Inr res"
    by blast
  from translate_total_on_strings [of "''key''" failing_post "''<b>a < b <<i> text''" "''fr''"] f
  have 2: "\<exists>res. translate_html_fragment ''key'' failing_post ''<b>a < b <<i> text'' ''fr'' = Inr res"
    by blast
  from translate_total_on_strings [of "''key''" ?null _ _ ?resp ?req] r
  have 3: "translate_response ''key'' ?null ?req ?resp = ?resp" by simp
  from s 1 2 r 3 show ?thesis by blast
qed

theorem translate_raises_counterexample:
  "translate_html_fragment ''key''
     (const_post (JObj [(''translations'', JArr [JObj [(''text'', JNull)]])]))
     ''<p>Hello world</p>'' ''fr'' = Inl TypeError"
  by code_simp



text \<open>
  Claim C7. For a right-to-left language the resulting \<open><html>\<close> tag is to carry
  \<open>dir="rtl"\<close>, replacing any existing \<open>dir\<close> attribute. The code finds a \<open>dir\<close>
  attribute with \<open>\bdir=\<close> and then replaces only a double-quoted one: with \<open>dir=ltr\<close>
  in the tag and Arabic as the language, the tag keeps \<open>dir=ltr\<close> and gets no
  \<open>dir="rtl"\<close>, while the same document without a \<open>dir\<close> attribute gets it.
\<close>

theorem rtl_dir_not_set:
  \<open>is_rtl ''ar''
   \<and> translate_html_fragment ''key'' upper_post ''<html dir=ltr><p>Hello world</p></html>'' ''ar''
       = Inr ''<html lang="ar" dir=ltr><p>HELLO WORLD</p></html>''
   \<and> \<not> contains ''<html lang="ar" dir=ltr><p>HELLO WORLD</p></html>'' ''dir="rtl"''
   \<and> translate_html_fragment ''key'' upper_post ''<html><p>Hello world</p></html>'' ''ar''
       = Inr ''<html dir="rtl" lang="ar"><p>HELLO WORLD</p></html>''\<close>
proof -
  have a: "is_rtl ''ar''" by code_simp
  have b: \<open>translate_html_fragment ''key'' upper_post ''<html dir=ltr><p>Hello world</p></html>'' ''ar''
       = Inr ''<html lang="ar" dir=ltr><p>HELLO WORLD</p></html>''\<close>
    by code_simp
  have c: \<open>\<not> contains ''<html lang="ar" dir=ltr><p>HELLO WORLD</p></html>'' ''dir="rtl"''\<close>
    by code_simp
  have d: \<open>translate_html_fragment ''key'' upper_post ''<html><p>Hello world</p></html>'' ''ar''
       = Inr ''<html dir="rtl" lang="ar"><p>HELLO WORLD</p></html>''\<close>
    by code_simp
  from a b c d show ?thesis by blast
qed



end
